theory Spec2Isabelle
  imports Complex_Main
begin

section \<open>DCF valuation: data model\<close>

text \<open>
  The valuation engine of \<^verbatim>\<open>dcf_calculator.py\<close> and the sensitivity grid of
  \<^verbatim>\<open>DCF.py\<close>. Floating-point values are modelled by the \<^typ>\<open>real\<close> they stand for: every
  result below is about exact arithmetic, not about IEEE rounding. A raised exception is a
  value \<open>Inl e\<close>, a returned \<^verbatim>\<open>None\<close> is \<open>None\<close>.
\<close>

datatype py_error = KeyError | IndexError | ZeroDivisionError | TypeError

subsection \<open>Python floats and numpy floats\<close>

text \<open>
  The statement figures and the market figures are plain Python numbers, but every
  average that \<^verbatim>\<open>np.mean\<close> computes is a \<^verbatim>\<open>numpy.float64\<close>, and so is every number computed
  from one. The two kinds differ on division by zero: Python raises
  \<^verbatim>\<open>ZeroDivisionError\<close>, numpy returns \<^verbatim>\<open>inf\<close> or \<^verbatim>\<open>nan\<close> and goes on (its warning is
  suppressed by \<^verbatim>\<open>warnings.filterwarnings('ignore')\<close>). A number therefore carries its kind.
\<close>

datatype num = Py real | Np real

fun value_of :: "num \<Rightarrow> real" where
  "value_of (Py x) = x"
| "value_of (Np x) = x"

fun is_np :: "num \<Rightarrow> bool" where
  "is_np (Py x) = False"
| "is_np (Np x) = True"

definition mk_num :: "bool \<Rightarrow> real \<Rightarrow> num" where
  "mk_num np x = (if np then Np x else Py x)"

text \<open>A binary operation: the result is a numpy float as soon as one operand is.\<close>

definition lift2 :: "(real \<Rightarrow> real \<Rightarrow> real) \<Rightarrow> num \<Rightarrow> num \<Rightarrow> num" where
  "lift2 f a b = mk_num (is_np a \<or> is_np b) (f (value_of a) (value_of b))"

instantiation num :: "{plus, minus, times}"
begin

definition plus_num :: "num \<Rightarrow> num \<Rightarrow> num" where
  "plus_num a b = lift2 (+) a b"

definition minus_num :: "num \<Rightarrow> num \<Rightarrow> num" where
  "minus_num a b = lift2 (-) a b"

definition times_num :: "num \<Rightarrow> num \<Rightarrow> num" where
  "times_num a b = lift2 (*) a b"

instance ..

end

text \<open>\<^verbatim>\<open>x ** n\<close> for an integer exponent \<open>n \<ge> 0\<close>: the kind of the base is kept.\<close>

definition num_pow :: "num \<Rightarrow> nat \<Rightarrow> num" where
  "num_pow a n = mk_num (is_np a) (value_of a ^ n)"

text \<open>
  A computed number that may be one of numpy's \<^verbatim>\<open>inf\<close>, \<^verbatim>\<open>-inf\<close> or \<^verbatim>\<open>nan\<close>. The three are
  not told apart: a sum, difference or quotient by a finite nonzero number of one of them
  is again one of them.
\<close>

datatype xnum = Fin num | NonFinite

instantiation xnum :: "{plus, minus}"
begin

definition plus_xnum :: "xnum \<Rightarrow> xnum \<Rightarrow> xnum" where
  "plus_xnum a b =
     (case a of NonFinite \<Rightarrow> NonFinite
      | Fin x \<Rightarrow> (case b of NonFinite \<Rightarrow> NonFinite | Fin y \<Rightarrow> Fin (x + y)))"

definition minus_xnum :: "xnum \<Rightarrow> xnum \<Rightarrow> xnum" where
  "minus_xnum a b =
     (case a of NonFinite \<Rightarrow> NonFinite
      | Fin x \<Rightarrow> (case b of NonFinite \<Rightarrow> NonFinite | Fin y \<Rightarrow> Fin (x - y)))"

instance ..

end

text \<open>
  \<^verbatim>\<open>a / b\<close> for a finite divisor. Dividing by zero raises when both operands are Python
  numbers and gives a non-finite numpy value otherwise.
\<close>

definition num_div :: "xnum \<Rightarrow> num \<Rightarrow> py_error + xnum" where
  "num_div a b =
     (case a of
        NonFinite \<Rightarrow> Inr NonFinite
      | Fin x \<Rightarrow>
          if value_of b = 0
          then (if is_np x then Inr NonFinite
                else if is_np b then Inr NonFinite
                else Inl ZeroDivisionError)
          else Inr (Fin (lift2 (/) x b)))"

text \<open>\<^verbatim>\<open>sum(xs)\<close>, which starts from the integer 0.\<close>

definition py_sum :: "xnum list \<Rightarrow> xnum" where
  "py_sum xs = foldl (+) (Fin (Py 0)) xs"

text \<open>\<^verbatim>\<open>np.mean\<close> of a non-empty list of Python floats.\<close>

definition mean :: "real list \<Rightarrow> real" where
  "mean xs = sum_list xs / real (length xs)"

definition np_mean :: "real list \<Rightarrow> num" where
  "np_mean xs = Np (mean xs)"

subsection \<open>Containers\<close>

text \<open>
  A statement line such as \<^verbatim>\<open>metrics['revenue']\<close> is an insertion-ordered dict from fiscal
  period to a Python float, most recent period first: an association list.
\<close>

type_synonym period = nat
type_synonym series = "(period \<times> real) list"

definition keys_of :: "series \<Rightarrow> period list" where
  "keys_of d = map fst d"

definition values_of :: "series \<Rightarrow> real list" where
  "values_of d = map snd d"

definition getitem :: "series \<Rightarrow> period \<Rightarrow> py_error + real" where
  "getitem d k = (case map_of d k of None \<Rightarrow> Inl KeyError | Some v \<Rightarrow> Inr v)"

text \<open>\<^verbatim>\<open>xs[0]\<close>, which raises on the empty list.\<close>

definition first :: "'a list \<Rightarrow> py_error + 'a" where
  "first xs = (case xs of [] \<Rightarrow> Inl IndexError | x # _ \<Rightarrow> Inr x)"

definition bind_err :: "py_error + 'a \<Rightarrow> ('a \<Rightarrow> py_error + 'b) \<Rightarrow> py_error + 'b" where
  "bind_err r f = (case r of Inl e \<Rightarrow> Inl e | Inr x \<Rightarrow> f x)"

text \<open>
  The metrics of \<^verbatim>\<open>get_key_metrics\<close> that the valuation reads (it never reads EBITDA, net
  income, operating cash flow, depreciation or working capital).
\<close>

record key_metrics =
  revenue :: series
  ebit :: series
  tax_expense :: series
  capex :: series
  total_debt :: series
  cash :: series

text \<open>
  The market figures: three Python numbers from the provider's \<^verbatim>\<open>info\<close> dict, and the last
  close of the price history, which is a numpy float when there is one.
\<close>

record market_data =
  market_cap :: real
  shares_outstanding :: real
  current_price :: num
  beta :: real

text \<open>
  \<^verbatim>\<open>get_market_data\<close>: a figure the provider does not report takes the default of
  \<^verbatim>\<open>info.get\<close>; an empty price history gives the integer price 0. The arguments are what the
  provider answered; a provider call that raises makes the source return \<^verbatim>\<open>None\<close>, which is
  the case \<open>market = None\<close> of the model object below.
\<close>

definition get_market_data :: "(string \<rightharpoonup> real) \<Rightarrow> real list \<Rightarrow> market_data option" where
  "get_market_data info hist_close =
     Some \<lparr> market_cap = (case info ''marketCap'' of None \<Rightarrow> 0 | Some v \<Rightarrow> v),
            shares_outstanding = (case info ''sharesOutstanding'' of None \<Rightarrow> 0 | Some v \<Rightarrow> v),
            current_price = (if hist_close \<noteq> [] then Np (last hist_close) else Py 0),
            beta = (case info ''beta'' of None \<Rightarrow> 1.0 | Some v \<Rightarrow> v) \<rparr>"

section \<open>WACCCalculator\<close>

record wacc_calculator =
  risk_free_rate :: real
  market_risk_premium :: real

definition default_wacc_calculator :: wacc_calculator where
  "default_wacc_calculator = \<lparr> risk_free_rate = 0.045, market_risk_premium = 0.065 \<rparr>"

text \<open>
  The dict of \<^verbatim>\<open>calculate_wacc\<close>. Only the WACC depends on the tax rate, which may be a
  numpy float; the other entries are computed from Python numbers alone.
\<close>

record wacc_breakdown =
  wb_wacc :: num
  wb_cost_of_equity :: real
  wb_cost_of_debt :: real
  wb_weight_equity :: real
  wb_weight_debt :: real
  wb_beta :: real

text \<open>\<^verbatim>\<open>calculate_wacc\<close> returns a bare float on one path and a dict on the other.\<close>

datatype wacc_return = Bare real | Breakdown wacc_breakdown

definition estimate_cost_of_debt :: "key_metrics \<Rightarrow> real" where
  "estimate_cost_of_debt financial_data = 0.05"

definition calculate_wacc ::
  "wacc_calculator \<Rightarrow> key_metrics \<Rightarrow> market_data \<Rightarrow> num \<Rightarrow> py_error + wacc_return" where
  "calculate_wacc self financial_data md tax_rate =
     (let b = beta md;
          cost_of_equity = risk_free_rate self + b * market_risk_premium self
      in bind_err (first (keys_of (total_debt financial_data))) (\<lambda>latest_year.
         bind_err (getitem (total_debt financial_data) latest_year) (\<lambda>d.
           let debt = \<bar>d\<bar>;
               market_value_equity = market_cap md;
               total_value = debt + market_value_equity
           in if total_value = 0 then Inr (Bare cost_of_equity)
              else
                let weight_equity = market_value_equity / total_value;
                    weight_debt = debt / total_value;
                    cost_of_debt = estimate_cost_of_debt financial_data;
                    wacc = Py (weight_equity * cost_of_equity)
                             + (Py (weight_debt * cost_of_debt) * (Py 1 - tax_rate))
                in Inr (Breakdown \<lparr> wb_wacc = wacc,
                                     wb_cost_of_equity = cost_of_equity,
                                     wb_cost_of_debt = cost_of_debt,
                                     wb_weight_equity = weight_equity,
                                     wb_weight_debt = weight_debt,
                                     wb_beta = b \<rparr>))))"

section \<open>DCFModel\<close>

text \<open>
  The model object after \<^verbatim>\<open>__init__\<close>: the constructor stores its parameters unchecked and
  fetches the data at once; a failed fetch leaves \<^verbatim>\<open>None\<close>.
\<close>

record dcf_model =
  projection_years :: int
  terminal_growth_rate :: real
  wacc_calc :: wacc_calculator
  financial_data :: "key_metrics option"
  market :: "market_data option"

definition DCFModel ::
  "key_metrics option \<times> market_data option \<Rightarrow> int \<Rightarrow> real \<Rightarrow> dcf_model" where
  "DCFModel fetched n g =
     \<lparr> projection_years = n, terminal_growth_rate = g,
       wacc_calc = default_wacc_calculator,
       financial_data = fst fetched, market = snd fetched \<rparr>"

text \<open>Each average is an \<^verbatim>\<open>np.mean\<close> result or, without data, a Python constant.\<close>

record averages =
  revenue_growth :: num
  ebit_margin :: num
  tax_rate :: num
  capex_ratio :: num

text \<open>The revenue-growth loop, \<^verbatim>\<open>for i in range(len(revenues)-1)\<close>.\<close>

fun revenue_growth_loop :: "real list \<Rightarrow> nat list \<Rightarrow> real list \<Rightarrow> real list" where
  "revenue_growth_loop revenues [] acc = acc"
| "revenue_growth_loop revenues (i # is) acc =
     revenue_growth_loop revenues is
       (if revenues ! (i + 1) \<noteq> 0
        then acc @ [(revenues ! i - revenues ! (i + 1)) / \<bar>revenues ! (i + 1)\<bar>]
        else acc)"

definition revenue_growth_rates :: "real list \<Rightarrow> real list" where
  "revenue_growth_rates revenues =
     revenue_growth_loop revenues [0 ..< length revenues - 1] []"

fun ebit_margins_loop :: "key_metrics \<Rightarrow> period list \<Rightarrow> real list \<Rightarrow> py_error + real list" where
  "ebit_margins_loop fd [] acc = Inr acc"
| "ebit_margins_loop fd (year # ys) acc =
     bind_err (getitem (revenue fd) year) (\<lambda>r.
     bind_err (getitem (ebit fd) year) (\<lambda>e.
       ebit_margins_loop fd ys (if r \<noteq> 0 then acc @ [e / r] else acc)))"

fun tax_rates_loop :: "key_metrics \<Rightarrow> period list \<Rightarrow> real list \<Rightarrow> py_error + real list" where
  "tax_rates_loop fd [] acc = Inr acc"
| "tax_rates_loop fd (year # ys) acc =
     bind_err (getitem (ebit fd) year) (\<lambda>e.
     bind_err (getitem (tax_expense fd) year) (\<lambda>t.
       tax_rates_loop fd ys (if e > 0 then acc @ [\<bar>t\<bar> / e] else acc)))"

fun capex_ratios_loop :: "key_metrics \<Rightarrow> period list \<Rightarrow> real list \<Rightarrow> py_error + real list" where
  "capex_ratios_loop fd [] acc = Inr acc"
| "capex_ratios_loop fd (year # ys) acc =
     bind_err (getitem (revenue fd) year) (\<lambda>r.
     bind_err (getitem (capex fd) year) (\<lambda>c.
       capex_ratios_loop fd ys (if r \<noteq> 0 then acc @ [\<bar>c\<bar> / r] else acc)))"

definition calculate_historical_averages :: "dcf_model \<Rightarrow> py_error + averages option" where
  "calculate_historical_averages self =
     (case financial_data self of
        None \<Rightarrow> Inr None
      | Some fd \<Rightarrow>
          let revenue_growth_rates = revenue_growth_rates (values_of (revenue fd)) in
          bind_err (ebit_margins_loop fd (keys_of (revenue fd)) []) (\<lambda>ebit_margins.
          bind_err (tax_rates_loop fd (keys_of (revenue fd)) []) (\<lambda>tax_rates.
          bind_err (capex_ratios_loop fd (keys_of (revenue fd)) []) (\<lambda>capex_ratios.
            Inr (Some \<lparr> revenue_growth =
                           (if revenue_growth_rates \<noteq> [] then np_mean revenue_growth_rates
                            else Py 0.05),
                         ebit_margin =
                           (if ebit_margins \<noteq> [] then np_mean ebit_margins else Py 0.15),
                         tax_rate = (if tax_rates \<noteq> [] then np_mean tax_rates else Py 0.25),
                         capex_ratio =
                           (if capex_ratios \<noteq> [] then np_mean capex_ratios
                            else Py 0.05) \<rparr>)))))"

record projection =
  p_year :: int
  p_revenue :: num
  p_ebit :: num
  p_nopat :: num
  p_capex :: num
  p_depreciation :: num
  p_change_in_wc :: num
  p_fcf :: num

text \<open>The body of the projection loop for one \<^verbatim>\<open>year\<close>.\<close>

definition project_year :: "real \<Rightarrow> averages \<Rightarrow> int \<Rightarrow> projection" where
  "project_year base_revenue av year =
     (let projected_revenue = Py base_revenue * num_pow (Py 1 + revenue_growth av) (nat year);
          projected_ebit = projected_revenue * ebit_margin av;
          nopat = projected_ebit * (Py 1 - tax_rate av);
          projected_capex = projected_revenue * capex_ratio av;
          depreciation = projected_revenue * Py 0.03;
          change_in_wc = projected_revenue * Py 0.02;
          fcf = nopat + depreciation - projected_capex - change_in_wc
      in \<lparr> p_year = year, p_revenue = projected_revenue, p_ebit = projected_ebit,
           p_nopat = nopat, p_capex = projected_capex, p_depreciation = depreciation,
           p_change_in_wc = change_in_wc, p_fcf = fcf \<rparr>)"

text \<open>\<^verbatim>\<open>for year in range(1, self.projection_years + 1)\<close>, appending to \<^verbatim>\<open>projections\<close>.\<close>

fun projection_loop :: "real \<Rightarrow> averages \<Rightarrow> int list \<Rightarrow> projection list \<Rightarrow> projection list" where
  "projection_loop base_revenue av [] projections = projections"
| "projection_loop base_revenue av (year # ys) projections =
     projection_loop base_revenue av ys (projections @ [project_year base_revenue av year])"

definition project_cash_flows :: "dcf_model \<Rightarrow> py_error + projection list option" where
  "project_cash_flows self =
     bind_err (calculate_historical_averages self) (\<lambda>avs.
       case avs of
         None \<Rightarrow> Inr None
       | Some av \<Rightarrow>
           (case financial_data self of
              None \<Rightarrow> Inl TypeError
            | Some fd \<Rightarrow>
                bind_err (first (values_of (revenue fd))) (\<lambda>base_revenue.
                  Inr (Some (projection_loop base_revenue av [1 .. projection_years self] [])))))"

text \<open>
  \<^verbatim>\<open>calculate_terminal_value\<close>: the bare formula. Its caller passes the last projected FCF
  and the WACC, either of which may be a numpy float.
\<close>

definition calculate_terminal_value :: "dcf_model \<Rightarrow> num \<Rightarrow> num \<Rightarrow> py_error + xnum" where
  "calculate_terminal_value self final_fcf wacc =
     num_div (Fin (final_fcf * (Py 1 + Py (terminal_growth_rate self))))
             (wacc - Py (terminal_growth_rate self))"

record valuation =
  v_enterprise_value :: xnum
  v_equity_value :: xnum
  v_value_per_share :: xnum
  v_current_price :: num
  v_upside_downside :: xnum
  v_wacc :: num
  v_terminal_value :: xnum
  v_pv_terminal_value :: xnum
  v_pv_cash_flows :: xnum
  v_projections :: "projection list"
  v_wacc_breakdown :: wacc_breakdown
  v_assumptions :: "averages option"

text \<open>The discounting loop, \<^verbatim>\<open>for projection in projections\<close>.\<close>

fun pv_loop :: "num \<Rightarrow> projection list \<Rightarrow> xnum list \<Rightarrow> py_error + xnum list" where
  "pv_loop wacc [] pv_cash_flows = Inr pv_cash_flows"
| "pv_loop wacc (p # ps) pv_cash_flows =
     bind_err (num_div (Fin (p_fcf p)) (num_pow (Py 1 + wacc) (nat (p_year p)))) (\<lambda>pv.
       pv_loop wacc ps (pv_cash_flows @ [pv]))"

text \<open>
  \<^verbatim>\<open>calculate_dcf_valuation\<close>. Subscripting the bare float that \<^verbatim>\<open>calculate_wacc\<close> returns
  on its zero-capital path raises \<^verbatim>\<open>TypeError\<close>.
\<close>

definition calculate_dcf_valuation :: "dcf_model \<Rightarrow> py_error + valuation option" where
  "calculate_dcf_valuation self =
     (case financial_data self of
        None \<Rightarrow> Inr None
      | Some fd \<Rightarrow>
     (case market self of
        None \<Rightarrow> Inr None
      | Some md \<Rightarrow>
          bind_err (calculate_historical_averages self) (\<lambda>avs.
          bind_err (calculate_wacc (wacc_calc self) fd md
                      (case avs of Some av \<Rightarrow> tax_rate av | None \<Rightarrow> Py 0.25)) (\<lambda>wacc_data.
          case wacc_data of
            Bare x \<Rightarrow> Inl TypeError
          | Breakdown wb \<Rightarrow>
              let wacc = wb_wacc wb in
              bind_err (project_cash_flows self) (\<lambda>ps.
              case ps of
                None \<Rightarrow> Inr None
              | Some projections \<Rightarrow>
                  if projections = [] then Inr None
                  else
                    bind_err (pv_loop wacc projections []) (\<lambda>pv_cash_flows.
                    let final_fcf = p_fcf (last projections) in
                    bind_err (calculate_terminal_value self final_fcf wacc) (\<lambda>terminal_value.
                    bind_err (num_div terminal_value
                                (num_pow (Py 1 + wacc) (nat (projection_years self))))
                      (\<lambda>pv_terminal_value.
                    let enterprise_value = py_sum pv_cash_flows + pv_terminal_value in
                    bind_err (first (keys_of (total_debt fd))) (\<lambda>latest_year.
                    bind_err (getitem (total_debt fd) latest_year) (\<lambda>debt.
                    bind_err (getitem (cash fd) latest_year) (\<lambda>csh.
                    let net_debt = debt - csh;
                        equity_value = enterprise_value - Fin (Py net_debt);
                        shares = shares_outstanding md
                    in
                    bind_err (if shares > 0 then num_div equity_value (Py shares)
                              else Inr (Fin (Py 0))) (\<lambda>value_per_share.
                    let price = current_price md in
                    bind_err (if value_of price > 0
                              then num_div (value_per_share - Fin price) price
                              else Inr (Fin (Py 0))) (\<lambda>upside_downside.
                    Inr (Some \<lparr> v_enterprise_value = enterprise_value,
                                 v_equity_value = equity_value,
                                 v_value_per_share = value_per_share,
                                 v_current_price = price,
                                 v_upside_downside = upside_downside,
                                 v_wacc = wacc,
                                 v_terminal_value = terminal_value,
                                 v_pv_terminal_value = pv_terminal_value,
                                 v_pv_cash_flows = py_sum pv_cash_flows,
                                 v_projections = projections,
                                 v_wacc_breakdown = wb,
                                 v_assumptions = avs \<rparr>))))))))))))))"

section \<open>The dashboard callbacks of DCF.py\<close>

text \<open>
  \<^verbatim>\<open>calculate_dcf\<close>: the data provider is a parameter, giving for a ticker what the
  constructor's fetch leaves in the model. The callback validates nothing but the click
  count and the ticker; any exception becomes a failure entry. The stored ticker is kept
  as typed (the source upper-cases it for display).
\<close>

datatype store = NoData | Success string valuation | Failed | FailedWith py_error

definition calculate_dcf ::
  "(string \<Rightarrow> key_metrics option \<times> market_data option) \<Rightarrow>
   nat \<Rightarrow> string \<Rightarrow> real \<Rightarrow> real \<Rightarrow> real \<Rightarrow> int \<Rightarrow> store" where
  "calculate_dcf provider n_clicks ticker rf mrp tg years =
     (if n_clicks = 0 then NoData
      else if ticker = [] then NoData
      else
        let dcf = DCFModel (provider ticker) years (tg / 100);
            dcf = dcf \<lparr> wacc_calc := \<lparr> risk_free_rate = rf / 100,
                                       market_risk_premium = mrp / 100 \<rparr> \<rparr>
        in case calculate_dcf_valuation dcf of
             Inl e \<Rightarrow> FailedWith e
           | Inr None \<Rightarrow> Failed
           | Inr (Some v) \<Rightarrow> Success ticker v)"

text \<open>
  One cell of the grid of \<^verbatim>\<open>update_sensitivity_chart\<close>. The callback reads the base result
  back from the browser store, where \<^verbatim>\<open>valuation['wacc']\<close> and
  \<^verbatim>\<open>valuation['value_per_share']\<close> are JSON numbers, that is Python floats: the two first
  arguments. The grid values are numpy floats, so a zero base WACC gives \<^verbatim>\<open>nan\<close> or
  \<^verbatim>\<open>inf\<close> instead of raising: \<open>None\<close> here.
\<close>

definition adjusted_value :: "real \<Rightarrow> real \<Rightarrow> real \<Rightarrow> real \<Rightarrow> real option" where
  "adjusted_value base_wacc base_value wacc terminal_growth =
     (if base_wacc = 0 then None
      else
        let wacc_impact = (base_wacc - wacc) / base_wacc * base_value * 0.5;
            terminal_impact = (terminal_growth - 0.025) / 0.025 * base_value * 0.3
        in Some (base_value + wacc_impact + terminal_impact))"

text \<open>The nested loops over the two ranges (\<^verbatim>\<open>np.arange\<close> results, taken as given).\<close>

definition sensitivity_data :: "real \<Rightarrow> real \<Rightarrow> real list \<Rightarrow> real list \<Rightarrow> real option list list" where
  "sensitivity_data base_wacc base_value wacc_range terminal_growth_range =
     map (\<lambda>wacc. map (\<lambda>terminal_growth. adjusted_value base_wacc base_value wacc terminal_growth)
                      terminal_growth_range) wacc_range"

section \<open>The specification's wording\<close>

text \<open>
  Revenue growth as the specification words it: over the adjacent pairs (newer, older) of
  the revenue list (most recent first) with nonzero older revenue, the mean of
  (newer - older) / older; 0.05 when there is no such pair.
\<close>

definition spec_revenue_growth :: "real list \<Rightarrow> real" where
  "spec_revenue_growth revenues =
     (let rates = map (\<lambda>(newer, older). (newer - older) / older)
                    (filter (\<lambda>(newer, older). older \<noteq> 0) (zip revenues (tl revenues)))
      in if rates = [] then 0.05 else mean rates)"

text \<open>The same with the absolute value of the older revenue as denominator.\<close>

definition abs_revenue_growth :: "real list \<Rightarrow> real" where
  "abs_revenue_growth revenues =
     (let rates = map (\<lambda>(newer, older). (newer - older) / \<bar>older\<bar>)
                    (filter (\<lambda>(newer, older). older \<noteq> 0) (zip revenues (tl revenues)))
      in if rates = [] then 0.05 else mean rates)"

text \<open>
  The invariant of the data model, as far as the averages read it: every period of the
  revenue line has an entry in the EBIT, tax and capex lines.
\<close>

definition periods_complete :: "key_metrics \<Rightarrow> bool" where
  "periods_complete fd =
     list_all (\<lambda>y. y \<in> set (keys_of (ebit fd)) \<and> y \<in> set (keys_of (tax_expense fd))
                    \<and> y \<in> set (keys_of (capex fd))) (keys_of (revenue fd))"

section \<open>Sample inputs\<close>

text \<open>Three periods growing by 10 percent a year, margin 20, tax 25 and capex 5 percent.\<close>

definition sample_metrics :: key_metrics where
  "sample_metrics =
     \<lparr> revenue = [(2023, 121), (2022, 110), (2021, 100)],
       ebit = [(2023, 24.2), (2022, 22), (2021, 20)],
       tax_expense = [(2023, 6.05), (2022, 5.5), (2021, 5)],
       capex = [(2023, - 6.05), (2022, - 5.5), (2021, - 5)],
       total_debt = [(2023, 50), (2022, 50), (2021, 50)],
       cash = [(2023, 10), (2022, 10), (2021, 10)] \<rparr>"

definition sample_market :: market_data where
  "sample_market =
     \<lparr> market_cap = 150, shares_outstanding = 10, current_price = Np 20, beta = 1 \<rparr>"

text \<open>The same company with share count and price not reported.\<close>

definition unlisted_market :: "market_data option" where
  "unlisted_market = get_market_data [''marketCap'' \<mapsto> 150] []"

definition sample_model :: "market_data option \<Rightarrow> int \<Rightarrow> real \<Rightarrow> dcf_model" where
  "sample_model md n g = DCFModel (Some sample_metrics, md) n g"

text \<open>A revenue line whose older period is negative.\<close>

definition negative_revenue_metrics :: key_metrics where
  "negative_revenue_metrics =
     \<lparr> revenue = [(2023, 1), (2022, - 1)],
       ebit = [(2023, 0), (2022, 0)],
       tax_expense = [(2023, 0), (2022, 0)],
       capex = [(2023, 0), (2022, 0)],
       total_debt = [(2023, 0), (2022, 0)],
       cash = [(2023, 0), (2022, 0)] \<rparr>"

text \<open>One period without revenue but with positive EBIT, and no debt.\<close>

definition zero_revenue_metrics :: key_metrics where
  "zero_revenue_metrics =
     \<lparr> revenue = [(2023, 0)],
       ebit = [(2023, 100)],
       tax_expense = [(2023, 10)],
       capex = [(2023, 0)],
       total_debt = [(2023, 0)],
       cash = [(2023, 0)] \<rparr>"

text \<open>No revenue and no positive EBIT in either period.\<close>

definition dormant_metrics :: key_metrics where
  "dormant_metrics =
     \<lparr> revenue = [(2023, 0), (2022, 0)],
       ebit = [(2023, - 5), (2022, 0)],
       tax_expense = [(2023, 0), (2022, 0)],
       capex = [(2023, 0), (2022, 0)],
       total_debt = [(2023, 20), (2022, 20)],
       cash = [(2023, 5), (2022, 5)] \<rparr>"

text \<open>One period without revenue or positive EBIT, no debt: every average is a default.\<close>

definition idle_metrics :: key_metrics where
  "idle_metrics =
     \<lparr> revenue = [(2023, 0)],
       ebit = [(2023, 0)],
       tax_expense = [(2023, 0)],
       capex = [(2023, 0)],
       total_debt = [(2023, 0)],
       cash = [(2023, 0)] \<rparr>"

text \<open>A market with capitalisation and price but no shares reported.\<close>

definition no_shares_market :: market_data where
  "no_shares_market =
     \<lparr> market_cap = 150, shares_outstanding = 0, current_price = Py 0, beta = 1 \<rparr>"

section \<open>Arithmetic of the two kinds\<close>

lemma mk_num_simps [simp]:
  "mk_num True x = Np x" "mk_num False x = Py x"
  "value_of (mk_num b x) = x" "is_np (mk_num b x) = b"
  by (simp_all add: mk_num_def)

lemma lift2_simps [simp]:
  "value_of (lift2 f a b) = f (value_of a) (value_of b)"
  "is_np (lift2 f a b) = (is_np a \<or> is_np b)"
  by (simp_all add: lift2_def)

lemma num_plus [simp]:
  "Py a + Py b = Py (a + b)" "Py a + Np b = Np (a + b)"
  "Np a + Py b = Np (a + b)" "Np a + Np b = Np (a + b)"
  by (simp_all add: plus_num_def lift2_def)

lemma num_minus [simp]:
  "Py a - Py b = Py (a - b)" "Py a - Np b = Np (a - b)"
  "Np a - Py b = Np (a - b)" "Np a - Np b = Np (a - b)"
  by (simp_all add: minus_num_def lift2_def)

lemma num_times [simp]:
  "Py a * Py b = Py (a * b)" "Py a * Np b = Np (a * b)"
  "Np a * Py b = Np (a * b)" "Np a * Np b = Np (a * b)"
  by (simp_all add: times_num_def lift2_def)

lemma value_of_arith [simp]:
  "value_of (a + b) = value_of a + value_of b"
  "value_of (a - b) = value_of a - value_of b"
  "value_of (a * b) = value_of a * value_of b"
  by (simp_all add: plus_num_def minus_num_def times_num_def)

lemma is_np_arith [simp]:
  "is_np (a + b) = (is_np a \<or> is_np b)"
  "is_np (a - b) = (is_np a \<or> is_np b)"
  "is_np (a * b) = (is_np a \<or> is_np b)"
  by (simp_all add: plus_num_def minus_num_def times_num_def)

lemma num_pow_simps [simp]:
  "num_pow (Py a) n = Py (a ^ n)" "num_pow (Np a) n = Np (a ^ n)"
  "value_of (num_pow x n) = value_of x ^ n" "is_np (num_pow x n) = is_np x"
  by (simp_all add: num_pow_def)

lemma lift2_consts [simp]:
  "lift2 f (Py a) (Py b) = Py (f a b)" "lift2 f (Py a) (Np b) = Np (f a b)"
  "lift2 f (Np a) (Py b) = Np (f a b)" "lift2 f (Np a) (Np b) = Np (f a b)"
  by (simp_all add: lift2_def)

lemma xnum_plus [simp]:
  "Fin a + Fin b = Fin (a + b)" "NonFinite + y = NonFinite" "x + NonFinite = NonFinite"
  by (simp_all add: plus_xnum_def split: xnum.splits)

lemma xnum_minus [simp]:
  "Fin a - Fin b = Fin (a - b)" "NonFinite - y = NonFinite" "x - NonFinite = NonFinite"
  by (simp_all add: minus_xnum_def split: xnum.splits)

lemma num_div_finite [simp]:
  "value_of b \<noteq> 0 \<Longrightarrow> num_div (Fin a) b = Inr (Fin (lift2 (/) a b))"
  by (simp add: num_div_def)

lemma num_div_zero [simp]:
  "num_div (Fin (Py a)) (Py 0) = Inl ZeroDivisionError"
  "num_div (Fin (Np a)) (Py 0) = Inr NonFinite"
  "num_div (Fin (Py a)) (Np 0) = Inr NonFinite"
  "num_div (Fin (Np a)) (Np 0) = Inr NonFinite"
  "num_div NonFinite b = Inr NonFinite"
  by (simp_all add: num_div_def)

lemma py_sum_fin: "foldl (+) (Fin a) (map Fin xs) = Fin (foldl (+) a xs)"
  by (induction xs arbitrary: a) simp_all

section \<open>Lookups and loops\<close>

lemma getitem_mem:
  "k \<in> set (keys_of d) \<Longrightarrow> \<exists>v. getitem d k = Inr v \<and> (k, v) \<in> set d"
  unfolding getitem_def keys_of_def
  by (cases "map_of d k") (auto simp: map_of_eq_None_iff dest: map_of_SomeD)

lemma getitem_InrD: "getitem d k = Inr v \<Longrightarrow> (k, v) \<in> set d"
  unfolding getitem_def by (auto split: option.splits dest: map_of_SomeD)

lemma revenue_growth_loop_eq:
  "revenue_growth_loop revs is acc =
     acc @ map (\<lambda>i. (revs ! i - revs ! (i + 1)) / \<bar>revs ! (i + 1)\<bar>)
             (filter (\<lambda>i. revs ! (i + 1) \<noteq> 0) is)"
  by (induction "is" arbitrary: acc) simp_all

lemma zip_tl_upt:
  "zip xs (tl xs) = map (\<lambda>i. (xs ! i, xs ! (i + 1))) [0 ..< length xs - 1]"
  by (rule nth_equalityI) (simp_all add: nth_tl)

lemma revenue_growth_rates_pairs:
  "revenue_growth_rates revs =
     map (\<lambda>(newer, older). (newer - older) / \<bar>older\<bar>)
       (filter (\<lambda>(newer, older). older \<noteq> 0) (zip revs (tl revs)))"
  unfolding revenue_growth_rates_def revenue_growth_loop_eq zip_tl_upt
  by (simp add: filter_map comp_def)

lemma ebit_margins_loop_ok:
  "set ys \<subseteq> set (keys_of (revenue fd)) \<Longrightarrow> set ys \<subseteq> set (keys_of (ebit fd)) \<Longrightarrow>
   \<exists>r. ebit_margins_loop fd ys acc = Inr r"
proof (induction ys arbitrary: acc)
  case Nil
  then show ?case by simp
next
  case (Cons y ys)
  from Cons.prems obtain r e where "getitem (revenue fd) y = Inr r" "getitem (ebit fd) y = Inr e"
    using getitem_mem by (metis list.set_intros(1) subsetD)
  then show ?case using Cons by (simp add: bind_err_def)
qed

lemma tax_rates_loop_ok:
  "set ys \<subseteq> set (keys_of (ebit fd)) \<Longrightarrow> set ys \<subseteq> set (keys_of (tax_expense fd)) \<Longrightarrow>
   \<exists>r. tax_rates_loop fd ys acc = Inr r"
proof (induction ys arbitrary: acc)
  case Nil
  then show ?case by simp
next
  case (Cons y ys)
  from Cons.prems obtain e t where "getitem (ebit fd) y = Inr e" "getitem (tax_expense fd) y = Inr t"
    using getitem_mem by (metis list.set_intros(1) subsetD)
  then show ?case using Cons by (simp add: bind_err_def)
qed

lemma capex_ratios_loop_ok:
  "set ys \<subseteq> set (keys_of (revenue fd)) \<Longrightarrow> set ys \<subseteq> set (keys_of (capex fd)) \<Longrightarrow>
   \<exists>r. capex_ratios_loop fd ys acc = Inr r"
proof (induction ys arbitrary: acc)
  case Nil
  then show ?case by simp
next
  case (Cons y ys)
  from Cons.prems obtain r c where "getitem (revenue fd) y = Inr r" "getitem (capex fd) y = Inr c"
    using getitem_mem by (metis list.set_intros(1) subsetD)
  then show ?case using Cons by (simp add: bind_err_def)
qed

lemma periods_completeD:
  assumes "periods_complete fd"
  shows "set (keys_of (revenue fd)) \<subseteq> set (keys_of (ebit fd))"
    and "set (keys_of (revenue fd)) \<subseteq> set (keys_of (tax_expense fd))"
    and "set (keys_of (revenue fd)) \<subseteq> set (keys_of (capex fd))"
  using assms unfolding periods_complete_def list_all_iff by auto

lemma averages_ok:
  assumes "financial_data self = Some fd" "periods_complete fd"
  shows "\<exists>ms ts cs.
      ebit_margins_loop fd (keys_of (revenue fd)) [] = Inr ms \<and>
      tax_rates_loop fd (keys_of (revenue fd)) [] = Inr ts \<and>
      capex_ratios_loop fd (keys_of (revenue fd)) [] = Inr cs \<and>
      calculate_historical_averages self = Inr (Some
        \<lparr> revenue_growth = (if revenue_growth_rates (values_of (revenue fd)) \<noteq> []
                             then np_mean (revenue_growth_rates (values_of (revenue fd)))
                             else Py 0.05),
          ebit_margin = (if ms \<noteq> [] then np_mean ms else Py 0.15),
          tax_rate = (if ts \<noteq> [] then np_mean ts else Py 0.25),
          capex_ratio = (if cs \<noteq> [] then np_mean cs else Py 0.05) \<rparr>)"
proof -
  note pc = periods_completeD [OF assms(2)]
  obtain ms where ms: "ebit_margins_loop fd (keys_of (revenue fd)) [] = Inr ms"
    using ebit_margins_loop_ok [OF subset_refl pc(1)] by blast
  obtain ts where ts: "tax_rates_loop fd (keys_of (revenue fd)) [] = Inr ts"
    using tax_rates_loop_ok [OF pc(1) pc(2)] by blast
  obtain cs where cs: "capex_ratios_loop fd (keys_of (revenue fd)) [] = Inr cs"
    using capex_ratios_loop_ok [OF subset_refl pc(3)] by blast
  show ?thesis
    using ms ts cs assms(1)
    by (simp add: calculate_historical_averages_def bind_err_def Let_def)
qed

lemma ebit_margins_loop_zero:
  "list_all (\<lambda>(y, r). r = 0) (revenue fd) \<Longrightarrow> ebit_margins_loop fd ys acc = Inr ms \<Longrightarrow> ms = acc"
proof (induction ys arbitrary: acc)
  case Nil
  then show ?case by simp
next
  case (Cons y ys)
  from Cons.prems(2) obtain r e where r: "getitem (revenue fd) y = Inr r"
    and rest: "ebit_margins_loop fd ys (if r \<noteq> 0 then acc @ [e / r] else acc) = Inr ms"
    by (auto simp: bind_err_def split: sum.splits)
  from getitem_InrD [OF r] Cons.prems(1) have "r = 0"
    by (auto simp: list_all_iff)
  with rest Cons.IH [OF Cons.prems(1)] show ?case by simp
qed

lemma capex_ratios_loop_zero:
  "list_all (\<lambda>(y, r). r = 0) (revenue fd) \<Longrightarrow> capex_ratios_loop fd ys acc = Inr cs \<Longrightarrow> cs = acc"
proof (induction ys arbitrary: acc)
  case Nil
  then show ?case by simp
next
  case (Cons y ys)
  from Cons.prems(2) obtain r c where r: "getitem (revenue fd) y = Inr r"
    and rest: "capex_ratios_loop fd ys (if r \<noteq> 0 then acc @ [\<bar>c\<bar> / r] else acc) = Inr cs"
    by (auto simp: bind_err_def split: sum.splits)
  from getitem_InrD [OF r] Cons.prems(1) have "r = 0"
    by (auto simp: list_all_iff)
  with rest Cons.IH [OF Cons.prems(1)] show ?case by simp
qed

lemma tax_rates_loop_nonpos:
  "list_all (\<lambda>(y, e). e \<le> 0) (ebit fd) \<Longrightarrow> tax_rates_loop fd ys acc = Inr ts \<Longrightarrow> ts = acc"
proof (induction ys arbitrary: acc)
  case Nil
  then show ?case by simp
next
  case (Cons y ys)
  from Cons.prems(2) obtain e t where e: "getitem (ebit fd) y = Inr e"
    and rest: "tax_rates_loop fd ys (if e > 0 then acc @ [\<bar>t\<bar> / e] else acc) = Inr ts"
    by (auto simp: bind_err_def split: sum.splits)
  from getitem_InrD [OF e] Cons.prems(1) have "e \<le> 0"
    by (auto simp: list_all_iff)
  with rest Cons.IH [OF Cons.prems(1)] show ?case by simp
qed

lemma revenue_growth_rates_zero:
  assumes "list_all (\<lambda>(y, r). r = 0) rv"
  shows "revenue_growth_rates (values_of rv) = []"
proof -
  have "\<And>v. v \<in> set (values_of rv) \<Longrightarrow> v = 0"
    using assms by (auto simp: list_all_iff values_of_def)
  have "\<And>p. p \<in> set (zip (values_of rv) (tl (values_of rv))) \<Longrightarrow> snd p = 0"
  proof -
    fix p assume p: "p \<in> set (zip (values_of rv) (tl (values_of rv)))"
    then have "snd p \<in> set (tl (values_of rv))"
      by (metis prod.collapse set_zip_rightD)
    then have "snd p \<in> set (values_of rv)"
      by (cases "values_of rv") auto
    then show "snd p = 0" using \<open>\<And>v. v \<in> set (values_of rv) \<Longrightarrow> v = 0\<close> by blast
  qed
  then have "filter (\<lambda>(newer, older). older \<noteq> 0) (zip (values_of rv) (tl (values_of rv))) = []"
    by (auto simp: filter_empty_conv)
  then show ?thesis by (simp add: revenue_growth_rates_pairs)
qed

lemma projection_loop_eq:
  "projection_loop b av ys acc = acc @ map (project_year b av) ys"
  by (induction ys arbitrary: acc) simp_all

lemma project_cash_flows_ok:
  assumes "financial_data self = Some fd"
    and "calculate_historical_averages self = Inr (Some av)"
    and "revenue fd = (y0, R0) # rest"
  shows "project_cash_flows self =
           Inr (Some (map (project_year R0 av) [1 .. projection_years self]))"
  using assms
  by (simp add: project_cash_flows_def bind_err_def first_def values_of_def projection_loop_eq)

section \<open>The sample inputs, evaluated\<close>

lemma sample_averages:
  "calculate_historical_averages (sample_model md n g)
      = Inr (Some \<lparr> revenue_growth = Np 0.1, ebit_margin = Np 0.2, tax_rate = Np 0.25,
                      capex_ratio = Np 0.05 \<rparr>)"
  by (simp add: calculate_historical_averages_def DCFModel_def sample_model_def sample_metrics_def
      bind_err_def getitem_def keys_of_def values_of_def np_mean_def mean_def
      revenue_growth_rates_def)

lemma sample_wacc:
  "calculate_wacc default_wacc_calculator sample_metrics sample_market (Np 0.25)
      = Inr (Breakdown \<lparr> wb_wacc = Np 0.091875, wb_cost_of_equity = 0.11, wb_cost_of_debt = 0.05,
                             wb_weight_equity = 0.75, wb_weight_debt = 0.25, wb_beta = 1 \<rparr>)"
  by (simp add: calculate_wacc_def default_wacc_calculator_def sample_metrics_def sample_market_def
      bind_err_def getitem_def keys_of_def first_def estimate_cost_of_debt_def)

section \<open>The valuation pipeline\<close>

lemma pv_loop_ok:
  "value_of wacc \<noteq> - 1 \<Longrightarrow>
   pv_loop wacc ps acc =
     Inr (acc @ map (\<lambda>p. Fin (lift2 (/) (p_fcf p) (num_pow (Py 1 + wacc) (nat (p_year p))))) ps)"
  by (induction ps arbitrary: acc) (simp_all add: bind_err_def)

lemma py_sum_finite: "\<exists>s. py_sum (map Fin xs) = Fin s"
  by (simp add: py_sum_def py_sum_fin)

lemma last_upto: "i \<le> j \<Longrightarrow> last [i .. j] = j"
  by (simp add: upto_rec2)

lemma valuation_result:
  assumes fd: "financial_data self = Some fd" and md: "market self = Some md"
    and av: "calculate_historical_averages self = Inr (Some av)"
    and wb: "calculate_wacc (wacc_calc self) fd md (tax_rate av) = Inr (Breakdown wb)"
    and rev: "revenue fd = (y0, R0) # rest"
    and debt: "total_debt fd = (y1, d) # drest"
    and csh: "map_of (cash fd) y1 = Some c"
    and n: "1 \<le> projection_years self"
    and w1: "value_of (wb_wacc wb) \<noteq> - 1"
    and wg: "value_of (wb_wacc wb) \<noteq> terminal_growth_rate self"
  shows "\<exists>v pvs ptv eq vps.
       calculate_dcf_valuation self = Inr (Some v)
     \<and> v_projections v = map (project_year R0 av) [1 .. projection_years self]
     \<and> v_wacc v = wb_wacc wb
     \<and> v_wacc_breakdown v = wb
     \<and> v_terminal_value v =
         Fin (lift2 (/) (p_fcf (project_year R0 av (projection_years self))
                           * (Py 1 + Py (terminal_growth_rate self)))
                        (wb_wacc wb - Py (terminal_growth_rate self)))
     \<and> v_pv_cash_flows v = Fin pvs
     \<and> v_pv_terminal_value v = Fin ptv
     \<and> v_enterprise_value v = Fin (pvs + ptv)
     \<and> v_equity_value v = Fin eq
     \<and> eq = pvs + ptv - Py (d - c)
     \<and> v_value_per_share v = Fin vps
     \<and> vps = (if shares_outstanding md > 0 then lift2 (/) eq (Py (shares_outstanding md))
              else Py 0)
     \<and> v_current_price v = current_price md
     \<and> v_upside_downside v =
         Fin (if value_of (current_price md) > 0
              then lift2 (/) (vps - current_price md) (current_price md) else Py 0)"
proof -
  let ?ps = "map (project_year R0 av) [1 .. projection_years self]"
  let ?w = "wb_wacc wb"
  let ?pw = "\<lambda>k. num_pow (Py 1 + ?w) (nat k)"
  have ps: "project_cash_flows self = Inr (Some ?ps)"
    using project_cash_flows_ok [OF fd av rev] .
  have ne: "?ps \<noteq> []" using n by simp
  have lst: "last ?ps = project_year R0 av (projection_years self)"
    using n by (simp add: last_map last_upto)
  define ys where "ys = map (\<lambda>p. lift2 (/) (p_fcf p) (?pw (p_year p))) ?ps"
  have pv: "pv_loop ?w ?ps [] = Inr (map Fin ys)"
    using pv_loop_ok [OF w1, of ?ps "[]"] by (simp add: comp_def ys_def)
  obtain pvs where pvs: "py_sum (map Fin ys) = Fin pvs"
    using py_sum_finite by blast
  have tv: "calculate_terminal_value self (p_fcf (project_year R0 av (projection_years self))) ?w =
      Inr (Fin (lift2 (/) (p_fcf (project_year R0 av (projection_years self))
                           * (Py 1 + Py (terminal_growth_rate self)))
                        (?w - Py (terminal_growth_rate self))))"
    using wg by (simp add: calculate_terminal_value_def)
  have pw: "value_of (?pw (projection_years self)) \<noteq> 0" using w1 by simp
  have ly: "first (keys_of (total_debt fd)) = Inr y1"
    using debt by (simp add: first_def keys_of_def)
  have gd: "getitem (total_debt fd) y1 = Inr d"
    using debt by (simp add: getitem_def)
  have gc: "getitem (cash fd) y1 = Inr c"
    using csh by (simp add: getitem_def)
  show ?thesis
    unfolding calculate_dcf_valuation_def
    using pw ne
    by (simp add: fd md av wb ps pv pvs lst tv ly gd gc bind_err_def Let_def
        del: upto.simps)
qed

lemma valuation_no_years:
  assumes fd: "financial_data self = Some fd" and md: "market self = Some md"
    and av: "calculate_historical_averages self = Inr (Some av)"
    and wb: "calculate_wacc (wacc_calc self) fd md (tax_rate av) = Inr (Breakdown wb)"
    and rev: "revenue fd = (y0, R0) # rest"
    and n: "projection_years self \<le> 0"
  shows "calculate_dcf_valuation self = Inr None"
proof -
  have "[1 .. projection_years self] = []" using n by simp
  then have ps: "project_cash_flows self = Inr (Some [])"
    using project_cash_flows_ok [OF fd av rev] by simp
  show ?thesis
    unfolding calculate_dcf_valuation_def
    by (simp add: fd md av wb ps bind_err_def Let_def)
qed

text \<open>What any returned result holds in its two per-share fields.\<close>

lemma returned_per_share:
  assumes "calculate_dcf_valuation self = Inr (Some v)" "market self = Some md"
  shows "(if shares_outstanding md > 0
          then num_div (v_equity_value v) (Py (shares_outstanding md))
          else Inr (Fin (Py 0))) = Inr (v_value_per_share v)"
    and "(if value_of (current_price md) > 0
          then num_div (v_value_per_share v - Fin (current_price md)) (current_price md)
          else Inr (Fin (Py 0))) = Inr (v_upside_downside v)"
  using assms
  unfolding calculate_dcf_valuation_def bind_err_def Let_def
  by (auto split: option.splits sum.splits wacc_return.splits if_splits)

lemma unlisted_wacc:
  "calculate_wacc default_wacc_calculator sample_metrics
      \<lparr> market_cap = 150, shares_outstanding = 0, current_price = Py 0, beta = 1 \<rparr> (Np 0.25)
      = Inr (Breakdown \<lparr> wb_wacc = Np 0.091875, wb_cost_of_equity = 0.11, wb_cost_of_debt = 0.05,
                             wb_weight_equity = 0.75, wb_weight_debt = 0.25, wb_beta = 1 \<rparr>)"
  by (simp add: calculate_wacc_def default_wacc_calculator_def sample_metrics_def
      bind_err_def getitem_def keys_of_def first_def estimate_cost_of_debt_def)

lemma sample_valuation_inputs:
  "financial_data (sample_model (Some sample_market) n g) = Some sample_metrics"
  "market (sample_model (Some sample_market) n g) = Some sample_market"
  "calculate_historical_averages (sample_model (Some sample_market) n g) = Inr (Some
      \<lparr> revenue_growth = Np 0.1, ebit_margin = Np 0.2, tax_rate = Np 0.25,
        capex_ratio = Np 0.05 \<rparr>)"
  "calculate_wacc (wacc_calc (sample_model (Some sample_market) n g)) sample_metrics sample_market
      (tax_rate \<lparr> revenue_growth = Np 0.1, ebit_margin = Np 0.2, tax_rate = Np 0.25,
                  capex_ratio = Np 0.05 \<rparr>)
     = Inr (Breakdown \<lparr> wb_wacc = Np 0.091875, wb_cost_of_equity = 0.11, wb_cost_of_debt = 0.05,
               wb_weight_equity = 0.75, wb_weight_debt = 0.25, wb_beta = 1 \<rparr>)"
  "revenue sample_metrics = (2023, 121) # [(2022, 110), (2021, 100)]"
  "total_debt sample_metrics = (2023, 50) # [(2022, 50), (2021, 50)]"
  "map_of (cash sample_metrics) 2023 = Some 10"
  "value_of (wb_wacc \<lparr> wb_wacc = Np 0.091875, wb_cost_of_equity = 0.11, wb_cost_of_debt = 0.05,
               wb_weight_equity = 0.75, wb_weight_debt = 0.25, wb_beta = 1 \<rparr>) \<noteq> - 1"
proof -
  show "financial_data (sample_model (Some sample_market) n g) = Some sample_metrics"
    and "market (sample_model (Some sample_market) n g) = Some sample_market"
    by (simp_all add: sample_model_def DCFModel_def)
  show "calculate_historical_averages (sample_model (Some sample_market) n g) = Inr (Some
      \<lparr> revenue_growth = Np 0.1, ebit_margin = Np 0.2, tax_rate = Np 0.25,
        capex_ratio = Np 0.05 \<rparr>)"
    by (rule sample_averages)
  have "wacc_calc (sample_model (Some sample_market) n g) = default_wacc_calculator"
    by (simp add: sample_model_def DCFModel_def)
  then show "calculate_wacc (wacc_calc (sample_model (Some sample_market) n g)) sample_metrics
      sample_market
      (tax_rate \<lparr> revenue_growth = Np 0.1, ebit_margin = Np 0.2, tax_rate = Np 0.25,
                  capex_ratio = Np 0.05 \<rparr>)
     = Inr (Breakdown \<lparr> wb_wacc = Np 0.091875, wb_cost_of_equity = 0.11, wb_cost_of_debt = 0.05,
               wb_weight_equity = 0.75, wb_weight_debt = 0.25, wb_beta = 1 \<rparr>)"
    using sample_wacc by simp
  show "revenue sample_metrics = (2023, 121) # [(2022, 110), (2021, 100)]"
    and "total_debt sample_metrics = (2023, 50) # [(2022, 50), (2021, 50)]"
    and "map_of (cash sample_metrics) 2023 = Some 10"
    by (simp_all add: sample_metrics_def)
  show "value_of (wb_wacc \<lparr> wb_wacc = Np 0.091875, wb_cost_of_equity = 0.11,
               wb_cost_of_debt = 0.05,
               wb_weight_equity = 0.75, wb_weight_debt = 0.25, wb_beta = 1 \<rparr>) \<noteq> - 1"
    by simp
qed

lemma zero_capital_general:
  assumes "total_debt fd = (y, d) # rest" "\<bar>d\<bar> + market_cap md = 0"
  shows "calculate_wacc self fd md t
           = Inr (Bare (risk_free_rate self + beta md * market_risk_premium self))"
  using assms
  by (simp add: calculate_wacc_def bind_err_def first_def keys_of_def getitem_def Let_def)

lemma get_market_data_defaults:
  "get_market_data info hist = Some md \<Longrightarrow> info ''sharesOutstanding'' = None \<Longrightarrow>
     shares_outstanding md = 0"
  "get_market_data info [] = Some md \<Longrightarrow> current_price md = Py 0"
  by (auto simp: get_market_data_def)

lemma valuation_zero_spread_python:
  assumes fd: "financial_data self = Some fd" and md: "market self = Some md"
    and av: "calculate_historical_averages self = Inr (Some av)"
    and wb: "calculate_wacc (wacc_calc self) fd md (tax_rate av) = Inr (Breakdown wb)"
    and rev: "revenue fd = (y0, R0) # rest"
    and n: "1 \<le> projection_years self"
    and w1: "value_of (wb_wacc wb) \<noteq> - 1"
    and wg: "value_of (wb_wacc wb) = terminal_growth_rate self"
    and kw: "wb_wacc wb = Py w"
    and kf: "p_fcf (project_year R0 av (projection_years self)) = Py f"
  shows "calculate_dcf_valuation self = Inl ZeroDivisionError"
proof -
  let ?ps = "map (project_year R0 av) [1 .. projection_years self]"
  have ps: "project_cash_flows self = Inr (Some ?ps)"
    using project_cash_flows_ok [OF fd av rev] .
  have ne: "?ps \<noteq> []" using n by simp
  have lst: "last ?ps = project_year R0 av (projection_years self)"
    using n by (simp add: last_map last_upto)
  define ys where "ys = map (\<lambda>p. lift2 (/) (p_fcf p)
      (num_pow (Py 1 + wb_wacc wb) (nat (p_year p)))) ?ps"
  have pv: "pv_loop (wb_wacc wb) ?ps [] = Inr (map Fin ys)"
    using pv_loop_ok [OF w1, of ?ps "[]"] by (simp add: comp_def ys_def)
  have tv: "calculate_terminal_value self (p_fcf (project_year R0 av (projection_years self)))
      (wb_wacc wb) = Inl ZeroDivisionError"
    using wg by (simp add: calculate_terminal_value_def kw kf)
  show ?thesis
    unfolding calculate_dcf_valuation_def
    using ne
    by (simp add: fd md av wb ps pv lst tv bind_err_def Let_def del: upto.simps)
qed

lemma idle_inputs:
  "calculate_historical_averages (DCFModel (Some idle_metrics, md) n g)
      = Inr (Some \<lparr> revenue_growth = Py 0.05, ebit_margin = Py 0.15, tax_rate = Py 0.25,
                      capex_ratio = Py 0.05 \<rparr>)"
  "calculate_wacc default_wacc_calculator idle_metrics no_shares_market (Py 0.25)
      = Inr (Breakdown \<lparr> wb_wacc = Py 0.11, wb_cost_of_equity = 0.11, wb_cost_of_debt = 0.05,
                             wb_weight_equity = 1, wb_weight_debt = 0, wb_beta = 1 \<rparr>)"
  "p_fcf (project_year 0 \<lparr> revenue_growth = Py 0.05, ebit_margin = Py 0.15, tax_rate = Py 0.25,
                      capex_ratio = Py 0.05 \<rparr> k) = Py 0"
  by (simp_all add: calculate_historical_averages_def DCFModel_def idle_metrics_def
      revenue_growth_rates_def values_of_def keys_of_def getitem_def first_def bind_err_def
      calculate_wacc_def default_wacc_calculator_def estimate_cost_of_debt_def
      no_shares_market_def project_year_def Let_def)


section \<open>Claims\<close>

text \<open>
  C7. With final-year FCF 100, WACC 0.10 and terminal growth 0.025,
  \<^verbatim>\<open>calculate_terminal_value\<close> returns 100 * 1.025 / (0.10 - 0.025), which lies within 0.01 of
  1366.67; and whenever WACC differs from the terminal growth rate the terminal value is
  FCF * (1 + g) / (WACC - g), a numpy float as soon as FCF or WACC is one.
\<close>

theorem terminal_value_formula:
  "calculate_terminal_value (self\<lparr>terminal_growth_rate := 0.025\<rparr>) (Py 100) (Py 0.10)
       = Inr (Fin (Py (100 * 1.025 / (0.10 - 0.025))))
   \<and> \<bar>100 * 1.025 / (0.10 - 0.025) - 1366.67\<bar> \<le> (0.01 :: real)
   \<and> (value_of wacc \<noteq> terminal_growth_rate self \<longrightarrow>
        calculate_terminal_value self final_fcf wacc =
          Inr (Fin (mk_num (is_np final_fcf \<or> is_np wacc)
                 (value_of final_fcf * (1 + terminal_growth_rate self)
                    / (value_of wacc - terminal_growth_rate self)))))"
  by (simp add: calculate_terminal_value_def lift2_def)

theorem terminal_value_formula_witness:
  "value_of (Py 0.10) \<noteq> terminal_growth_rate (sample_model (Some sample_market) 5 0.025)
   \<and> calculate_terminal_value (sample_model (Some sample_market) 5 0.025) (Py 100) (Py 0.10)
       = Inr (Fin (Py (100 * (1 + 0.025) / (0.10 - 0.025))))"
  using terminal_value_formula [of "sample_model (Some sample_market) 5 0.025" "Py 0.10" "Py 100"]
  by (simp add: sample_model_def DCFModel_def)



text \<open>The same cell inside the grid, wherever the two ranges hold the base point.\<close>

lemma sensitivity_data_base_cell:
  "base_wacc \<noteq> 0 \<Longrightarrow> i < length ws \<Longrightarrow> j < length gs \<Longrightarrow>
   ws ! i = base_wacc \<Longrightarrow> gs ! j = 0.025 \<Longrightarrow>
   sensitivity_data base_wacc base_value ws gs ! i ! j = Some base_value"
  by (simp add: sensitivity_data_def adjusted_value_def)

text \<open>
  C10. With a most recent debt figure d, non-negative market capitalisation and nonzero
  total capital, \<^verbatim>\<open>calculate_wacc\<close> returns a breakdown whose debt weight is
  |d| / (|d| + market cap), whose two weights lie in [0, 1] and whose weights sum to 1.
\<close>

theorem wacc_weights_unit_interval:
  assumes "total_debt fd = (y, d) # rest" "0 \<le> market_cap md" "\<bar>d\<bar> + market_cap md \<noteq> 0"
  shows "\<exists>wb. calculate_wacc self fd md t = Inr (Breakdown wb)
           \<and> wb_weight_debt wb = \<bar>d\<bar> / (\<bar>d\<bar> + market_cap md)
           \<and> 0 \<le> wb_weight_equity wb \<and> wb_weight_equity wb \<le> 1
           \<and> 0 \<le> wb_weight_debt wb \<and> wb_weight_debt wb \<le> 1
           \<and> wb_weight_equity wb + wb_weight_debt wb = 1"
proof -
  let ?tv = "\<bar>d\<bar> + market_cap md"
  have pos: "0 < ?tv" using assms(2,3) by linarith
  have ret: "calculate_wacc self fd md t = Inr (Breakdown
      \<lparr> wb_wacc = Py (market_cap md / ?tv
                        * (risk_free_rate self + beta md * market_risk_premium self))
                    + (Py (\<bar>d\<bar> / ?tv * estimate_cost_of_debt fd) * (Py 1 - t)),
        wb_cost_of_equity = risk_free_rate self + beta md * market_risk_premium self,
        wb_cost_of_debt = estimate_cost_of_debt fd,
        wb_weight_equity = market_cap md / ?tv,
        wb_weight_debt = \<bar>d\<bar> / ?tv,
        wb_beta = beta md \<rparr>)"
    using assms(1,3)
    by (simp add: calculate_wacc_def bind_err_def first_def keys_of_def getitem_def Let_def)
  have sum1: "market_cap md / ?tv + \<bar>d\<bar> / ?tv = 1"
    using pos by (simp add: add_divide_distrib [symmetric] add.commute)
  show ?thesis
    unfolding ret using pos assms(2) sum1 by simp
qed

theorem wacc_weights_unit_interval_witness:
  "total_debt (sample_metrics\<lparr>total_debt := [(2023, - 50)]\<rparr>) = (2023, - 50) # []
   \<and> 0 \<le> market_cap sample_market \<and> \<bar>- 50\<bar> + market_cap sample_market \<noteq> 0
   \<and> (\<exists>wb. calculate_wacc default_wacc_calculator
                (sample_metrics\<lparr>total_debt := [(2023, - 50)]\<rparr>) sample_market (Np 0.25)
              = Inr (Breakdown wb)
           \<and> wb_weight_debt wb = 0.25
           \<and> wb_weight_equity wb + wb_weight_debt wb = 1)"
  using wacc_weights_unit_interval [of "sample_metrics\<lparr>total_debt := [(2023, - 50)]\<rparr>"
      2023 "- 50" "[]" sample_market default_wacc_calculator "Np 0.25"]
  by (auto simp: sample_market_def)

text \<open>
  C4, as amended. For metrics with complete periods, the average revenue growth is the
  mean, over the adjacent pairs (newer, older) whose older revenue is nonzero, of
  (newer - older) divided by the absolute value of the older revenue, and 0.05 when
  there is no such pair.
\<close>

theorem revenue_growth_abs_mean:
  assumes "financial_data self = Some fd" "periods_complete fd"
  shows "\<exists>av. calculate_historical_averages self = Inr (Some av)
            \<and> value_of (revenue_growth av) = abs_revenue_growth (values_of (revenue fd))"
proof -
  from averages_ok [OF assms] obtain ms ts cs where
    "calculate_historical_averages self = Inr (Some
        \<lparr> revenue_growth = (if revenue_growth_rates (values_of (revenue fd)) \<noteq> []
                             then np_mean (revenue_growth_rates (values_of (revenue fd)))
                             else Py 0.05),
          ebit_margin = (if ms \<noteq> [] then np_mean ms else Py 0.15),
          tax_rate = (if ts \<noteq> [] then np_mean ts else Py 0.25),
          capex_ratio = (if cs \<noteq> [] then np_mean cs else Py 0.05) \<rparr>)"
    by blast
  then show ?thesis
    by (simp add: abs_revenue_growth_def revenue_growth_rates_pairs Let_def np_mean_def)
qed

theorem revenue_growth_abs_mean_witness:
  "financial_data (sample_model None 5 0.025) = Some sample_metrics
   \<and> periods_complete sample_metrics
   \<and> (\<exists>av. calculate_historical_averages (sample_model None 5 0.025) = Inr (Some av)
            \<and> value_of (revenue_growth av)
                = abs_revenue_growth (values_of (revenue sample_metrics)))"
proof -
  have h1: "financial_data (sample_model None 5 0.025) = Some sample_metrics"
    by (simp add: sample_model_def DCFModel_def)
  have h2: "periods_complete sample_metrics"
    by (simp add: periods_complete_def sample_metrics_def keys_of_def)
  show ?thesis using h1 h2 revenue_growth_abs_mean [OF h1 h2] by simp
qed

text \<open>
  C4 as stated fails: with revenue 1 after revenue -1 the code reports growth 2, the
  stated ratio (newer - older) / older is -2.
\<close>

theorem revenue_growth_signed_counterexample:
  "calculate_historical_averages (DCFModel (Some negative_revenue_metrics, None) 5 0.025)
      = Inr (Some \<lparr> revenue_growth = Np 2, ebit_margin = Np 0, tax_rate = Py 0.25,
                      capex_ratio = Np 0 \<rparr>)
   \<and> spec_revenue_growth (values_of (revenue negative_revenue_metrics)) = - 2"
  by (simp add: calculate_historical_averages_def DCFModel_def negative_revenue_metrics_def
      bind_err_def getitem_def keys_of_def values_of_def np_mean_def mean_def
      revenue_growth_rates_def spec_revenue_growth_def)

text \<open>
  C5, as amended. When every period's revenue is zero (and the periods are complete),
  \<^verbatim>\<open>calculate_historical_averages\<close> returns revenue growth 0.05, EBIT margin 0.15 and capex
  ratio 0.05; the tax rate is 0.25 when, moreover, no period has strictly positive EBIT.
\<close>

theorem zero_revenue_fallbacks:
  assumes "financial_data self = Some fd" "periods_complete fd"
    and "list_all (\<lambda>(y, r). r = 0) (revenue fd)"
  shows "\<exists>av. calculate_historical_averages self = Inr (Some av)
            \<and> revenue_growth av = Py 0.05 \<and> ebit_margin av = Py 0.15
            \<and> capex_ratio av = Py 0.05
            \<and> (list_all (\<lambda>(y, e). e \<le> 0) (ebit fd) \<longrightarrow> tax_rate av = Py 0.25)"
proof -
  from averages_ok [OF assms(1,2)] obtain ms ts cs where
    ms: "ebit_margins_loop fd (keys_of (revenue fd)) [] = Inr ms" and
    ts: "tax_rates_loop fd (keys_of (revenue fd)) [] = Inr ts" and
    cs: "capex_ratios_loop fd (keys_of (revenue fd)) [] = Inr cs" and
    av: "calculate_historical_averages self = Inr (Some
        \<lparr> revenue_growth = (if revenue_growth_rates (values_of (revenue fd)) \<noteq> []
                             then np_mean (revenue_growth_rates (values_of (revenue fd)))
                             else Py 0.05),
          ebit_margin = (if ms \<noteq> [] then np_mean ms else Py 0.15),
          tax_rate = (if ts \<noteq> [] then np_mean ts else Py 0.25),
          capex_ratio = (if cs \<noteq> [] then np_mean cs else Py 0.05) \<rparr>)"
    by blast
  have "ms = []" using ebit_margins_loop_zero [OF assms(3) ms] .
  moreover have "cs = []" using capex_ratios_loop_zero [OF assms(3) cs] .
  moreover have "revenue_growth_rates (values_of (revenue fd)) = []"
    using revenue_growth_rates_zero [OF assms(3)] .
  moreover have "list_all (\<lambda>(y, e). e \<le> 0) (ebit fd) \<Longrightarrow> ts = []"
    using tax_rates_loop_nonpos [OF _ ts] .
  ultimately show ?thesis using av by auto
qed

theorem zero_revenue_fallbacks_witness:
  "financial_data (DCFModel (Some dormant_metrics, None) 5 0.025) = Some dormant_metrics
   \<and> periods_complete dormant_metrics
   \<and> list_all (\<lambda>(y, r). r = 0) (revenue dormant_metrics)
   \<and> list_all (\<lambda>(y, e). e \<le> 0) (ebit dormant_metrics)
   \<and> (\<exists>av. calculate_historical_averages (DCFModel (Some dormant_metrics, None) 5 0.025)
               = Inr (Some av)
            \<and> revenue_growth av = Py 0.05 \<and> ebit_margin av = Py 0.15
            \<and> capex_ratio av = Py 0.05 \<and> tax_rate av = Py 0.25)"
proof -
  have h1: "financial_data (DCFModel (Some dormant_metrics, None) 5 0.025) = Some dormant_metrics"
    by (simp add: DCFModel_def)
  have h2: "periods_complete dormant_metrics"
    by (simp add: periods_complete_def dormant_metrics_def keys_of_def)
  have h3: "list_all (\<lambda>(y, r). r = 0) (revenue dormant_metrics)"
    by (simp add: dormant_metrics_def)
  have h4: "list_all (\<lambda>(y, e). e \<le> 0) (ebit dormant_metrics)"
    by (simp add: dormant_metrics_def)
  show ?thesis using h1 h2 h3 h4 zero_revenue_fallbacks [OF h1 h2 h3] by auto
qed

text \<open>
  C5 as stated fails: one period with revenue 0, EBIT 100 and tax expense 10 gives the
  tax rate 0.1, since the tax loop is guarded by EBIT and not by revenue.
\<close>

theorem zero_revenue_tax_rate_counterexample:
  "list_all (\<lambda>(y, r). r = 0) (revenue zero_revenue_metrics)
   \<and> calculate_historical_averages (DCFModel (Some zero_revenue_metrics, None) 5 0.025)
      = Inr (Some \<lparr> revenue_growth = Py 0.05, ebit_margin = Py 0.15, tax_rate = Np 0.1,
                      capex_ratio = Py 0.05 \<rparr>)"
  by (simp add: calculate_historical_averages_def DCFModel_def zero_revenue_metrics_def
      bind_err_def getitem_def keys_of_def values_of_def np_mean_def mean_def
      revenue_growth_rates_def)

text \<open>
  C2. For metrics with complete periods and most recent revenue R0, and every horizon N,
  \<^verbatim>\<open>project_cash_flows\<close> returns exactly N entries (none when N is not positive), and the
  entry of each year k in 1..N has revenue R0 * (1 + g)^k, EBIT = revenue * margin,
  NOPAT = EBIT * (1 - tax rate), capex = revenue * capex ratio, depreciation =
  revenue * 0.03, change in working capital = revenue * 0.02 and FCF = NOPAT +
  depreciation - capex - change in working capital: a function of R0, the averages and k
  alone.
\<close>

theorem projection_entries:
  assumes "financial_data self = Some fd" "periods_complete fd" "revenue fd = (y0, R0) # rest"
  shows "\<exists>av ps. calculate_historical_averages self = Inr (Some av)
            \<and> project_cash_flows self = Inr (Some ps)
            \<and> length ps = nat (projection_years self)
            \<and> (\<forall>k. 1 \<le> k \<and> k \<le> projection_years self \<longrightarrow>
                 p_year (ps ! nat (k - 1)) = k
               \<and> value_of (p_revenue (ps ! nat (k - 1)))
                   = R0 * (1 + value_of (revenue_growth av)) ^ nat k
               \<and> value_of (p_ebit (ps ! nat (k - 1)))
                   = value_of (p_revenue (ps ! nat (k - 1))) * value_of (ebit_margin av)
               \<and> value_of (p_nopat (ps ! nat (k - 1)))
                   = value_of (p_ebit (ps ! nat (k - 1))) * (1 - value_of (tax_rate av))
               \<and> value_of (p_capex (ps ! nat (k - 1)))
                   = value_of (p_revenue (ps ! nat (k - 1))) * value_of (capex_ratio av)
               \<and> value_of (p_depreciation (ps ! nat (k - 1)))
                   = value_of (p_revenue (ps ! nat (k - 1))) * 0.03
               \<and> value_of (p_change_in_wc (ps ! nat (k - 1)))
                   = value_of (p_revenue (ps ! nat (k - 1))) * 0.02
               \<and> value_of (p_fcf (ps ! nat (k - 1))) =
                   value_of (p_nopat (ps ! nat (k - 1)))
                   + value_of (p_depreciation (ps ! nat (k - 1)))
                   - value_of (p_capex (ps ! nat (k - 1)))
                   - value_of (p_change_in_wc (ps ! nat (k - 1))))"
proof -
  from averages_ok [OF assms(1,2)] obtain av where
    av: "calculate_historical_averages self = Inr (Some av)" by blast
  let ?ps = "map (project_year R0 av) [1 .. projection_years self]"
  have ps: "project_cash_flows self = Inr (Some ?ps)"
    using project_cash_flows_ok [OF assms(1) av assms(3)] .
  have len: "length ?ps = nat (projection_years self)" by simp
  have nth: "?ps ! nat (k - 1) = project_year R0 av k"
    if "1 \<le> k" "k \<le> projection_years self" for k
  proof -
    have "nat (k - 1) < length [1 .. projection_years self]" using that by simp
    moreover have "[1 .. projection_years self] ! nat (k - 1) = k"
      using that by (simp add: nth_upto)
    ultimately show ?thesis by simp
  qed
  show ?thesis
    using av ps len nth by (auto simp: project_year_def Let_def)
qed

theorem projection_entries_witness:
  "financial_data (sample_model None 5 0.025) = Some sample_metrics
   \<and> periods_complete sample_metrics
   \<and> revenue sample_metrics = (2023, 121) # [(2022, 110), (2021, 100)]
   \<and> (1 :: int) \<le> 2 \<and> 2 \<le> projection_years (sample_model None 5 0.025)
   \<and> (\<exists>ps. project_cash_flows (sample_model None 5 0.025) = Inr (Some ps)
            \<and> length ps = 5
            \<and> p_year (ps ! 1) = 2
            \<and> value_of (p_revenue (ps ! 1)) = 121 * (1 + 0.1) ^ 2
            \<and> value_of (p_fcf (ps ! 1)) =
                 value_of (p_nopat (ps ! 1)) + value_of (p_depreciation (ps ! 1))
                   - value_of (p_capex (ps ! 1)) - value_of (p_change_in_wc (ps ! 1)))"
proof -
  have h1: "financial_data (sample_model None 5 0.025) = Some sample_metrics"
    by (simp add: sample_model_def DCFModel_def)
  have h2: "periods_complete sample_metrics"
    by (simp add: periods_complete_def sample_metrics_def keys_of_def)
  have h3: "revenue sample_metrics = (2023, 121) # [(2022, 110), (2021, 100)]"
    by (simp add: sample_metrics_def)
  have n: "projection_years (sample_model None 5 0.025) = 5"
    by (simp add: sample_model_def DCFModel_def)
  from projection_entries [OF h1 h2 h3] obtain av ps where
    av: "calculate_historical_averages (sample_model None 5 0.025) = Inr (Some av)" and
    ps: "project_cash_flows (sample_model None 5 0.025) = Inr (Some ps)" and
    len: "length ps = nat (projection_years (sample_model None 5 0.025))" and
    ent: "\<forall>k. 1 \<le> k \<and> k \<le> projection_years (sample_model None 5 0.025) \<longrightarrow>
                 p_year (ps ! nat (k - 1)) = k
               \<and> value_of (p_revenue (ps ! nat (k - 1)))
                   = 121 * (1 + value_of (revenue_growth av)) ^ nat k
               \<and> value_of (p_ebit (ps ! nat (k - 1)))
                   = value_of (p_revenue (ps ! nat (k - 1))) * value_of (ebit_margin av)
               \<and> value_of (p_nopat (ps ! nat (k - 1)))
                   = value_of (p_ebit (ps ! nat (k - 1))) * (1 - value_of (tax_rate av))
               \<and> value_of (p_capex (ps ! nat (k - 1)))
                   = value_of (p_revenue (ps ! nat (k - 1))) * value_of (capex_ratio av)
               \<and> value_of (p_depreciation (ps ! nat (k - 1)))
                   = value_of (p_revenue (ps ! nat (k - 1))) * 0.03
               \<and> value_of (p_change_in_wc (ps ! nat (k - 1)))
                   = value_of (p_revenue (ps ! nat (k - 1))) * 0.02
               \<and> value_of (p_fcf (ps ! nat (k - 1))) =
                   value_of (p_nopat (ps ! nat (k - 1)))
                   + value_of (p_depreciation (ps ! nat (k - 1)))
                   - value_of (p_capex (ps ! nat (k - 1)))
                   - value_of (p_change_in_wc (ps ! nat (k - 1)))"
    by blast
  have g: "value_of (revenue_growth av) = 0.1"
    using av by (auto simp: sample_averages)
  have k2: "p_year (ps ! 1) = 2 \<and> value_of (p_revenue (ps ! 1)) = 121 * (1 + 0.1) ^ 2
      \<and> value_of (p_fcf (ps ! 1)) =
                 value_of (p_nopat (ps ! 1)) + value_of (p_depreciation (ps ! 1))
                   - value_of (p_capex (ps ! 1)) - value_of (p_change_in_wc (ps ! 1))"
    using ent [rule_format, of 2] n g by simp
  show ?thesis using h1 h2 h3 n ps len k2 by simp
qed

text \<open>
  C6, as amended. Every result that \<^verbatim>\<open>calculate_dcf_valuation\<close> returns has value per share
  0 when shares outstanding is zero, or not reported by the provider, and upside/downside
  0 when the current price is zero, or the price history is empty. A result is returned
  whenever the averages and a WACC breakdown are computed, the metrics have a most recent
  revenue and a cash entry for the latest debt period, the horizon is at least 1, and the
  WACC is neither -1 nor the terminal growth rate.
\<close>

theorem per_share_guards:
  assumes "market self = Some md"
  shows "(calculate_dcf_valuation self = Inr (Some v) \<longrightarrow>
            (shares_outstanding md = 0 \<longrightarrow> v_value_per_share v = Fin (Py 0))
          \<and> (value_of (current_price md) = 0 \<longrightarrow> v_upside_downside v = Fin (Py 0))
          \<and> (\<forall>info hist. market self = get_market_data info hist
                  \<and> info ''sharesOutstanding'' = None
                \<longrightarrow> v_value_per_share v = Fin (Py 0))
          \<and> (\<forall>info. market self = get_market_data info []
                \<longrightarrow> v_upside_downside v = Fin (Py 0)))
       \<and> (financial_data self = Some fd
            \<and> calculate_historical_averages self = Inr (Some av)
            \<and> calculate_wacc (wacc_calc self) fd md (tax_rate av) = Inr (Breakdown wb)
            \<and> revenue fd = (y0, R0) # rest
            \<and> total_debt fd = (y1, d) # drest
            \<and> map_of (cash fd) y1 = Some c
            \<and> 1 \<le> projection_years self
            \<and> value_of (wb_wacc wb) \<noteq> - 1
            \<and> value_of (wb_wacc wb) \<noteq> terminal_growth_rate self
          \<longrightarrow> (\<exists>r. calculate_dcf_valuation self = Inr (Some r)))"
proof (intro conjI impI allI)
  assume v: "calculate_dcf_valuation self = Inr (Some v)"
  note ps = returned_per_share [OF v assms]
  show a: "v_value_per_share v = Fin (Py 0)" if "shares_outstanding md = 0"
    using ps(1) that by simp
  show b: "v_upside_downside v = Fin (Py 0)" if "value_of (current_price md) = 0"
    using ps(2) that by simp
  show "v_value_per_share v = Fin (Py 0)"
    if "market self = get_market_data info hist \<and> info ''sharesOutstanding'' = None"
    for info hist
    using that assms get_market_data_defaults(1) [of info hist md] a by simp
  show "v_upside_downside v = Fin (Py 0)"
    if "market self = get_market_data info []" for info
    using that assms get_market_data_defaults(2) [of info md] b by simp
next
  assume h: "financial_data self = Some fd
            \<and> calculate_historical_averages self = Inr (Some av)
            \<and> calculate_wacc (wacc_calc self) fd md (tax_rate av) = Inr (Breakdown wb)
            \<and> revenue fd = (y0, R0) # rest
            \<and> total_debt fd = (y1, d) # drest
            \<and> map_of (cash fd) y1 = Some c
            \<and> 1 \<le> projection_years self
            \<and> value_of (wb_wacc wb) \<noteq> - 1
            \<and> value_of (wb_wacc wb) \<noteq> terminal_growth_rate self"
  then show "\<exists>r. calculate_dcf_valuation self = Inr (Some r)"
    using valuation_result [of self fd md av wb y0 R0 rest y1 d drest c] assms by blast
qed

theorem per_share_guards_witness:
  "market (sample_model unlisted_market 5 0.025) = get_market_data [''marketCap'' \<mapsto> 150] []
   \<and> [''marketCap'' \<mapsto> (150 :: real)] ''sharesOutstanding'' = None
   \<and> (\<exists>v. calculate_dcf_valuation (sample_model unlisted_market 5 0.025) = Inr (Some v)
          \<and> v_value_per_share v = Fin (Py 0) \<and> v_upside_downside v = Fin (Py 0))"
proof -
  let ?m = "sample_model unlisted_market 5 0.025"
  let ?md = "\<lparr> market_cap = 150, shares_outstanding = 0, current_price = Py 0, beta = 1 \<rparr>"
  let ?av = "\<lparr> revenue_growth = Np 0.1, ebit_margin = Np 0.2, tax_rate = Np 0.25,
               capex_ratio = Np 0.05 \<rparr>"
  let ?wb = "\<lparr> wb_wacc = Np 0.091875, wb_cost_of_equity = 0.11, wb_cost_of_debt = 0.05,
               wb_weight_equity = 0.75, wb_weight_debt = 0.25, wb_beta = 1 \<rparr>"
  have h1: "financial_data ?m = Some sample_metrics"
    by (simp add: sample_model_def DCFModel_def)
  have h2: "market ?m = Some ?md"
    by (simp add: sample_model_def DCFModel_def unlisted_market_def get_market_data_def)
  have h3: "calculate_historical_averages ?m = Inr (Some ?av)"
    by (rule sample_averages)
  have h4: "calculate_wacc (wacc_calc ?m) sample_metrics ?md (tax_rate ?av) = Inr (Breakdown ?wb)"
    using unlisted_wacc by (simp add: sample_model_def DCFModel_def)
  have h5: "revenue sample_metrics = (2023, 121) # [(2022, 110), (2021, 100)]"
    by (simp add: sample_metrics_def)
  have h6: "total_debt sample_metrics = (2023, 50) # [(2022, 50), (2021, 50)]"
    by (simp add: sample_metrics_def)
  have h7: "map_of (cash sample_metrics) 2023 = Some 10"
    by (simp add: sample_metrics_def)
  have h8: "1 \<le> projection_years ?m"
    by (simp add: sample_model_def DCFModel_def)
  have h9: "value_of (wb_wacc ?wb) \<noteq> - 1" by simp
  have h10: "value_of (wb_wacc ?wb) \<noteq> terminal_growth_rate ?m"
    by (simp add: sample_model_def DCFModel_def)
  have mk: "market ?m = get_market_data [''marketCap'' \<mapsto> 150] []"
    by (simp add: sample_model_def DCFModel_def unlisted_market_def)
  have nk: "[''marketCap'' \<mapsto> (150 :: real)] ''sharesOutstanding'' = None"
    by simp
  from per_share_guards [OF h2, of _ sample_metrics ?av ?wb 2023 121
      "[(2022, 110), (2021, 100)]" 2023 50 "[(2022, 50), (2021, 50)]" 10]
    h1 h3 h4 h5 h6 h7 h8 h9 h10
  obtain r where r: "calculate_dcf_valuation ?m = Inr (Some r)" by blast
  from per_share_guards [OF h2, of r] r
  have "v_value_per_share r = Fin (Py 0)" "v_upside_downside r = Fin (Py 0)"
    by simp_all
  with r mk nk show ?thesis by blast
qed

text \<open>
  C6 as stated fails: with zero shares outstanding, a horizon of 0 gives \<^verbatim>\<open>None\<close>; metrics
  without revenue or EBIT, whose averages are all Python defaults, raise
  \<^verbatim>\<open>ZeroDivisionError\<close> in the terminal value when the terminal growth rate equals the WACC
  0.11; and zero total capital raises \<^verbatim>\<open>TypeError\<close>. No value per share is returned.
\<close>

theorem per_share_counterexample:
  "shares_outstanding no_shares_market = 0
   \<and> calculate_dcf_valuation (sample_model (Some no_shares_market) 0 0.025) = Inr None
   \<and> calculate_dcf_valuation (DCFModel (Some idle_metrics, Some no_shares_market) 5 0.11)
       = Inl ZeroDivisionError
   \<and> calculate_dcf_valuation (DCFModel (Some idle_metrics, get_market_data Map.empty []) 5 0.025)
       = Inl TypeError"
proof -
  have a: "shares_outstanding no_shares_market = 0"
    by (simp add: no_shares_market_def)
  have b: "calculate_dcf_valuation (sample_model (Some no_shares_market) 0 0.025) = Inr None"
  proof (rule valuation_no_years)
    show "financial_data (sample_model (Some no_shares_market) 0 0.025) = Some sample_metrics"
      by (simp add: sample_model_def DCFModel_def)
    show "market (sample_model (Some no_shares_market) 0 0.025) = Some no_shares_market"
      by (simp add: sample_model_def DCFModel_def)
    show "calculate_historical_averages (sample_model (Some no_shares_market) 0 0.025)
        = Inr (Some \<lparr> revenue_growth = Np 0.1, ebit_margin = Np 0.2, tax_rate = Np 0.25,
                      capex_ratio = Np 0.05 \<rparr>)"
      by (rule sample_averages)
    show "calculate_wacc (wacc_calc (sample_model (Some no_shares_market) 0 0.025))
        sample_metrics no_shares_market
        (tax_rate \<lparr> revenue_growth = Np 0.1, ebit_margin = Np 0.2, tax_rate = Np 0.25,
                      capex_ratio = Np 0.05 \<rparr>)
        = Inr (Breakdown \<lparr> wb_wacc = Np 0.091875, wb_cost_of_equity = 0.11,
               wb_cost_of_debt = 0.05,
               wb_weight_equity = 0.75, wb_weight_debt = 0.25, wb_beta = 1 \<rparr>)"
      using unlisted_wacc by (simp add: sample_model_def DCFModel_def no_shares_market_def)
    show "revenue sample_metrics = (2023, 121) # [(2022, 110), (2021, 100)]"
      by (simp add: sample_metrics_def)
    show "projection_years (sample_model (Some no_shares_market) 0 0.025) \<le> 0"
      by (simp add: sample_model_def DCFModel_def)
  qed
  have c: "calculate_dcf_valuation (DCFModel (Some idle_metrics, Some no_shares_market) 5 0.11)
       = Inl ZeroDivisionError"
  proof (rule valuation_zero_spread_python)
    let ?m = "DCFModel (Some idle_metrics, Some no_shares_market) 5 0.11"
    show "financial_data ?m = Some idle_metrics" "market ?m = Some no_shares_market"
      by (simp_all add: DCFModel_def)
    show "calculate_historical_averages ?m
      = Inr (Some \<lparr> revenue_growth = Py 0.05, ebit_margin = Py 0.15, tax_rate = Py 0.25,
                      capex_ratio = Py 0.05 \<rparr>)"
      by (rule idle_inputs)
    show "calculate_wacc (wacc_calc ?m) idle_metrics no_shares_market
        (tax_rate \<lparr> revenue_growth = Py 0.05, ebit_margin = Py 0.15, tax_rate = Py 0.25,
                      capex_ratio = Py 0.05 \<rparr>)
      = Inr (Breakdown \<lparr> wb_wacc = Py 0.11, wb_cost_of_equity = 0.11, wb_cost_of_debt = 0.05,
                             wb_weight_equity = 1, wb_weight_debt = 0, wb_beta = 1 \<rparr>)"
      using idle_inputs(2) by (simp add: DCFModel_def)
    show "revenue idle_metrics = (2023, 0) # []"
      by (simp add: idle_metrics_def)
    show "1 \<le> projection_years ?m" by (simp add: DCFModel_def)
    show "value_of (wb_wacc \<lparr> wb_wacc = Py 0.11, wb_cost_of_equity = 0.11,
        wb_cost_of_debt = 0.05, wb_weight_equity = 1, wb_weight_debt = 0, wb_beta = 1 \<rparr>) \<noteq> - 1"
      by simp
    show "value_of (wb_wacc \<lparr> wb_wacc = Py 0.11, wb_cost_of_equity = 0.11,
        wb_cost_of_debt = 0.05, wb_weight_equity = 1, wb_weight_debt = 0, wb_beta = 1 \<rparr>)
        = terminal_growth_rate ?m"
      by (simp add: DCFModel_def)
    show "wb_wacc \<lparr> wb_wacc = Py 0.11, wb_cost_of_equity = 0.11,
        wb_cost_of_debt = 0.05, wb_weight_equity = 1, wb_weight_debt = 0, wb_beta = 1 \<rparr>
        = Py 0.11"
      by simp
    show "p_fcf (project_year 0 \<lparr> revenue_growth = Py 0.05, ebit_margin = Py 0.15,
        tax_rate = Py 0.25, capex_ratio = Py 0.05 \<rparr> (projection_years ?m)) = Py 0"
      by (rule idle_inputs)
  qed
  have d: "calculate_dcf_valuation
        (DCFModel (Some idle_metrics, get_market_data Map.empty []) 5 0.025) = Inl TypeError"
    by (simp add: calculate_dcf_valuation_def DCFModel_def idle_metrics_def get_market_data_def
        calculate_historical_averages_def revenue_growth_rates_def values_of_def keys_of_def
        getitem_def first_def bind_err_def calculate_wacc_def default_wacc_calculator_def
        estimate_cost_of_debt_def)
  show ?thesis using a b c d by simp
qed

text \<open>
  C9, as amended. The horizon is not validated: for every horizon N of at least 1, inside
  or outside [3, 10], the valuation is computed with exactly N projected years (under the
  conditions of C6), and for N of at most 0 \<^verbatim>\<open>calculate_dcf_valuation\<close> returns \<^verbatim>\<open>None\<close>, after
  the averages and the WACC have been computed.
\<close>

theorem horizon_not_validated:
  assumes "financial_data self = Some fd" "market self = Some md"
    and "calculate_historical_averages self = Inr (Some av)"
    and "calculate_wacc (wacc_calc self) fd md (tax_rate av) = Inr (Breakdown wb)"
    and "revenue fd = (y0, R0) # rest"
    and "total_debt fd = (y1, d) # drest"
    and "map_of (cash fd) y1 = Some c"
    and "value_of (wb_wacc wb) \<noteq> - 1"
    and "value_of (wb_wacc wb) \<noteq> terminal_growth_rate self"
  shows "(1 \<le> projection_years self \<longrightarrow>
            (\<exists>v. calculate_dcf_valuation self = Inr (Some v)
                \<and> length (v_projections v) = nat (projection_years self)))
       \<and> (projection_years self \<le> 0 \<longrightarrow> calculate_dcf_valuation self = Inr None)"
proof (intro conjI impI)
  assume n: "1 \<le> projection_years self"
  from valuation_result [OF assms(1-7) n assms(8,9)] obtain v where
    "calculate_dcf_valuation self = Inr (Some v)"
    "v_projections v = map (project_year R0 av) [1 .. projection_years self]"
    by blast
  then show "\<exists>v. calculate_dcf_valuation self = Inr (Some v)
                \<and> length (v_projections v) = nat (projection_years self)"
    by simp
next
  assume "projection_years self \<le> 0"
  then show "calculate_dcf_valuation self = Inr None"
    using valuation_no_years [OF assms(1-5)] by simp
qed

theorem horizon_not_validated_witness:
  "(1 :: int) \<le> projection_years (sample_model (Some sample_market) 12 0.025)
   \<and> (\<exists>v. calculate_dcf_valuation (sample_model (Some sample_market) 12 0.025) = Inr (Some v)
          \<and> length (v_projections v) = 12)
   \<and> projection_years (sample_model (Some sample_market) 0 0.025) \<le> 0
   \<and> calculate_dcf_valuation (sample_model (Some sample_market) 0 0.025) = Inr None"
proof -
  have g: "value_of (wb_wacc \<lparr> wb_wacc = Np 0.091875, wb_cost_of_equity = 0.11,
               wb_cost_of_debt = 0.05,
               wb_weight_equity = 0.75, wb_weight_debt = 0.25, wb_beta = 1 \<rparr>)
        \<noteq> terminal_growth_rate (sample_model (Some sample_market) n 0.025)" for n
    by (simp add: sample_model_def DCFModel_def)
  have n12: "projection_years (sample_model (Some sample_market) 12 0.025) = 12"
    and n0: "projection_years (sample_model (Some sample_market) 0 0.025) = 0"
    by (simp_all add: sample_model_def DCFModel_def)
  show ?thesis
    using horizon_not_validated [OF sample_valuation_inputs g [of 12]]
      horizon_not_validated [OF sample_valuation_inputs g [of 0]] n12 n0
    by simp
qed

text \<open>
  C9 as stated fails: the dashboard callback with 12 projection years stores a successful
  valuation holding 12 projected years.
\<close>

theorem horizon_unchecked_counterexample:
  "(case calculate_dcf (\<lambda>ticker. (Some sample_metrics, Some sample_market))
           1 ''AAPL'' 4.5 6.5 2.5 12 of
      Success ticker v \<Rightarrow> length (v_projections v) = 12
    | _ \<Rightarrow> False)"
proof -
  let ?m = "sample_model (Some sample_market) 12 (1 / 40)"
  have g: "value_of (wb_wacc \<lparr> wb_wacc = Np 0.091875, wb_cost_of_equity = 0.11,
               wb_cost_of_debt = 0.05,
               wb_weight_equity = 0.75, wb_weight_debt = 0.25, wb_beta = 1 \<rparr>)
        \<noteq> terminal_growth_rate ?m"
    by (simp add: sample_model_def DCFModel_def)
  have n: "1 \<le> projection_years ?m" by (simp add: sample_model_def DCFModel_def)
  from valuation_result [OF sample_valuation_inputs(1-7) n
      sample_valuation_inputs(8) g]
  obtain v where v: "calculate_dcf_valuation ?m = Inr (Some v)"
    and p: "v_projections v = map (project_year 121
        \<lparr> revenue_growth = Np 0.1, ebit_margin = Np 0.2, tax_rate = Np 0.25,
          capex_ratio = Np 0.05 \<rparr>)
        [1 .. projection_years ?m]"
    by blast
  have len: "length (v_projections v) = 12"
    unfolding p by (simp add: sample_model_def DCFModel_def del: upto.simps)
  have m: "(DCFModel (Some sample_metrics, Some sample_market) 12 (1 / 40))
             \<lparr> wacc_calc := \<lparr> risk_free_rate = 9 / 200, market_risk_premium = 13 / 200 \<rparr> \<rparr> = ?m"
    by (simp add: sample_model_def DCFModel_def default_wacc_calculator_def)
  show ?thesis
    by (simp add: calculate_dcf_def Let_def m v len)
qed




text \<open>
  C3. With zero debt and zero market capitalisation \<^verbatim>\<open>calculate_wacc\<close> returns the bare CAPM
  cost of equity 0.045 + 1 * 0.065 = 0.11 and no breakdown record, and
  \<^verbatim>\<open>calculate_dcf_valuation\<close>, which subscripts the result, raises \<^verbatim>\<open>TypeError\<close>.
\<close>

theorem zero_capital_wacc_is_bare:
  "calculate_wacc default_wacc_calculator zero_revenue_metrics
      \<lparr> market_cap = 0, shares_outstanding = 0, current_price = Py 0, beta = 1 \<rparr> (Py 0.25)
      = Inr (Bare 0.11)
   \<and> calculate_dcf_valuation
        (DCFModel (Some zero_revenue_metrics, get_market_data Map.empty []) 5 0.025)
      = Inl TypeError"
  by (simp add: calculate_wacc_def default_wacc_calculator_def zero_revenue_metrics_def 
      calculate_dcf_valuation_def DCFModel_def get_market_data_def
      calculate_historical_averages_def values_of_def np_mean_def mean_def
      revenue_growth_rates_def
      bind_err_def getitem_def keys_of_def first_def estimate_cost_of_debt_def)

end
